theory Spec2Isabelle
  imports Main "HOL-Library.Word"
begin

section \<open>The vector-store registrar: \<open>sqlite_vec_register\<close>\<close>

text \<open>
  The repository's only function with a body is the registration shim of
  \<^verbatim>\<open>client/Memory/CSqliteVec/sqlite_vec_register.c\<close>:
  \<^verbatim>\<open>
  int sqlite_vec_register(sqlite3 *db) {
      char *err = NULL;
      int rc = sqlite3_vec_init(db, &err, NULL);
      if (err) {
          sqlite3_free(err);
      }
      return rc;
  }
  \<close>
  The header \<^verbatim>\<open>client/Memory/CLlama/alfred_llama.h\<close> declares the interface of the
  inference engine (types, enumerations, parameter structs and function prototypes) and
  defines no function; nothing of it is executed by the shim.
\<close>

subsection \<open>Pointers, status codes and the allocator's memory\<close>

text \<open>
  A pointer is an address, \<open>NULL\<close> is address 0, and a C \<^verbatim>\<open>int\<close> is a 32-bit word
  (read as signed by \<open>sint\<close>). The memory the shim can touch is the set of live buffers
  of the database engine's allocator, each with the text it holds; everything else the
  engine owns (connections, their function namespaces) is the component \<open>engine\<close>,
  which the shim itself never reads or writes.
\<close>

type_synonym addr = nat

type_synonym c_int = "32 word"

definition NULL :: addr where
  "NULL = 0"

record 'e world =
  heap :: "addr \<rightharpoonup> string"
  engine :: 'e

text \<open>
  Releasing a pointer that is neither \<open>NULL\<close> nor a live buffer of the allocator is
  undefined behaviour in C; the model makes it a fault value, so that it is a branch of
  every function that frees.
\<close>

datatype fault = InvalidFree addr

text \<open>
  Modelled from the spec: \<^verbatim>\<open>sqlite3_free\<close> is declared in \<^verbatim>\<open>sqlite3.h\<close>, which is
  not among the repository's sources. The spec's error-signalling section speaks of a
  message buffer that, when allocated, is released; releasing a live buffer removes it
  from the allocator's memory, and releasing \<open>NULL\<close> does nothing.
\<close>

definition sqlite3_free :: "addr \<Rightarrow> 'e world \<Rightarrow> fault + 'e world" where
  "sqlite3_free p w =
     (if p = NULL then Inr w
      else if heap w p = None then Inl (InvalidFree p)
      else Inr (w\<lparr>heap := (heap w)(p := None)\<rparr>))"

text \<open>
  \<^verbatim>\<open>sqlite3_vec_init\<close> belongs to the vector-search extension and is not among the
  repository's sources either, so the shim is modelled over an arbitrary one. Such a
  function receives the connection, the content of the out-parameter \<^verbatim>\<open>*pzErrMsg\<close>
  on entry, the API pointer and the world, and yields its status code, the content of
  \<^verbatim>\<open>*pzErrMsg\<close> on return and the world it leaves behind.
\<close>

type_synonym 'e vec_init = "addr \<Rightarrow> addr \<Rightarrow> addr \<Rightarrow> 'e world \<Rightarrow> c_int \<times> addr \<times> 'e world"

subsection \<open>The shim\<close>

definition sqlite_vec_register ::
    "'e vec_init \<Rightarrow> addr \<Rightarrow> 'e world \<Rightarrow> fault + (c_int \<times> 'e world)" where
  "sqlite_vec_register sqlite3_vec_init db w =
     (let err = NULL in
      case sqlite3_vec_init db err NULL w of
        (rc, err, w) \<Rightarrow>
          if err \<noteq> NULL then
            (case sqlite3_free err w of
               Inl f \<Rightarrow> Inl f
             | Inr w \<Rightarrow> Inr (rc, w))
          else Inr (rc, w))"

subsection \<open>Sample outcomes of the init call\<close>

text \<open>
  Two concrete init functions on which the theorems below are exercised: one that leaves
  a message of the given text in a fresh buffer at address 4096 and returns the given
  status, and one that leaves no message.
\<close>

definition init_with_message :: "c_int \<Rightarrow> string \<Rightarrow> unit vec_init" where
  "init_with_message rc msg db err api w = (rc, 4096, w\<lparr>heap := (heap w)(4096 \<mapsto> msg)\<rparr>)"

definition init_silent :: "c_int \<Rightarrow> unit vec_init" where
  "init_silent rc db err api w = (rc, err, w)"

definition empty_world :: "unit world" where
  "empty_world = \<lparr>heap = Map.empty, engine = ()\<rparr>"

section \<open>Properties of the shim\<close>

subsection \<open>The three outcomes\<close>

lemma register_no_message:
  assumes "sqlite3_vec_init db NULL NULL w = (rc, NULL, w1)"
  shows "sqlite_vec_register sqlite3_vec_init db w = Inr (rc, w1)"
  using assms by (simp add: sqlite_vec_register_def)

lemma register_live_message:
  assumes "sqlite3_vec_init db NULL NULL w = (rc, err, w1)"
    and "err \<noteq> NULL" and "heap w1 err \<noteq> None"
  shows "sqlite_vec_register sqlite3_vec_init db w =
           Inr (rc, w1\<lparr>heap := (heap w1)(err := None)\<rparr>)"
  using assms by (simp add: sqlite_vec_register_def sqlite3_free_def)

lemma register_invalid_pointer:
  assumes "sqlite3_vec_init db NULL NULL w = (rc, err, w1)"
    and "err \<noteq> NULL" and "heap w1 err = None"
  shows "sqlite_vec_register sqlite3_vec_init db w = Inl (InvalidFree err)"
  using assms by (simp add: sqlite_vec_register_def sqlite3_free_def)

lemma register_world_is_free:
  assumes "sqlite3_vec_init db NULL NULL w = (rc, err, w1)"
  shows "map_sum id snd (sqlite_vec_register sqlite3_vec_init db w) = sqlite3_free err w1"
  using assms
  by (cases "sqlite3_free err w1")
     (auto simp: sqlite_vec_register_def sqlite3_free_def split: if_splits)

subsection \<open>Claim C1: the error-message buffer is released before returning\<close>

text \<open>
  C1. Whatever the connection and whatever the init call yields (any status, error
  statuses included), as long as the message pointer it leaves is \<open>NULL\<close> or a live
  buffer of the allocator, the shim returns normally with that status, and on return the
  buffer the pointer named is no longer live. Nothing else in the allocator's memory or
  in the engine is touched, and the result carries a status code only, so no pointer to
  the released buffer reaches the caller.
\<close>

theorem register_frees_error_buffer:
  assumes "sqlite3_vec_init db NULL NULL w = (rc, err, w1)"
    and "err \<noteq> NULL \<longrightarrow> heap w1 err \<noteq> None"
  shows "\<exists>w'. sqlite_vec_register sqlite3_vec_init db w = Inr (rc, w')
              \<and> (err \<noteq> NULL \<longrightarrow> heap w' err = None)
              \<and> (\<forall>a. a \<noteq> err \<longrightarrow> heap w' a = heap w1 a)
              \<and> engine w' = engine w1"
proof (cases "err = NULL")
  case True
  with assms(1) have "sqlite_vec_register sqlite3_vec_init db w = Inr (rc, w1)"
    by (simp add: register_no_message)
  with True show ?thesis by simp
next
  case False
  with assms have "sqlite_vec_register sqlite3_vec_init db w =
      Inr (rc, w1\<lparr>heap := (heap w1)(err := None)\<rparr>)"
    by (simp add: register_live_message)
  then show ?thesis by simp
qed

text \<open>
  The error path on a concrete run: the init call fails with status 7 and leaves the
  message ``out of memory'' at address 4096.
\<close>

theorem register_frees_error_buffer_witness:
  "init_with_message 7 ''out of memory'' 1 NULL NULL empty_world =
     (7, 4096, \<lparr>heap = [4096 \<mapsto> ''out of memory''], engine = ()\<rparr>)
   \<and> (4096 :: addr) \<noteq> NULL
   \<and> heap \<lparr>heap = [4096 \<mapsto> ''out of memory''], engine = ()\<rparr> 4096 \<noteq> None
   \<and> (\<exists>w'. sqlite_vec_register (init_with_message 7 ''out of memory'') 1 empty_world = Inr (7, w')
            \<and> heap w' 4096 = None \<and> heap w' 5000 = None \<and> engine w' = ())"
proof -
  let ?w1 = "\<lparr>heap = [4096 \<mapsto> ''out of memory''], engine = ()\<rparr>"
  have run: "init_with_message 7 ''out of memory'' 1 NULL NULL empty_world = (7, 4096, ?w1)"
    by (simp add: init_with_message_def empty_world_def)
  have live: "(4096 :: addr) \<noteq> NULL \<longrightarrow> heap ?w1 4096 \<noteq> None"
    by simp
  from run live
    register_frees_error_buffer [of "init_with_message 7 ''out of memory''" 1 empty_world
      7 4096 ?w1]
  obtain w' where
    "sqlite_vec_register (init_with_message 7 ''out of memory'') 1 empty_world = Inr (7, w')"
    "(4096 :: addr) \<noteq> NULL \<longrightarrow> heap w' 4096 = None"
    "\<forall>a. a \<noteq> 4096 \<longrightarrow> heap w' a = heap ?w1 a"
    "engine w' = engine ?w1"
    by blast
  then have "sqlite_vec_register (init_with_message 7 ''out of memory'') 1 empty_world = Inr (7, w')
      \<and> heap w' 4096 = None \<and> heap w' 5000 = None \<and> engine w' = ()"
    by (simp add: NULL_def)
  then show ?thesis using run by (auto simp: NULL_def)
qed

subsection \<open>Claim C2: the status of the init call is surfaced\<close>

text \<open>
  C2. The shim returns an integer status, and it is the very status code the init call
  produced: no status is replaced by another one, so the result is 0 exactly when the
  init call reported 0 (success), and a non-zero status (failure) reaches the caller
  with its own value.
\<close>

theorem register_surfaces_status:
  assumes "sqlite3_vec_init db NULL NULL w = (rc, err, w1)"
    and "err \<noteq> NULL \<longrightarrow> heap w1 err \<noteq> None"
  shows "\<exists>rc' w'. sqlite_vec_register sqlite3_vec_init db w = Inr (rc', w')
                 \<and> rc' = rc \<and> ((rc' = 0) = (rc = 0))"
proof (cases "err = NULL")
  case True
  with assms(1) show ?thesis by (simp add: register_no_message)
next
  case False
  with assms show ?thesis by (simp add: register_live_message)
qed

text \<open>
  A concrete run in which the init call fails with status 19 and leaves no message: the
  caller receives 19, neither 0 nor any other failure code.
\<close>

theorem register_surfaces_status_witness:
  "init_silent 19 3 NULL NULL empty_world = (19, NULL, empty_world)
   \<and> (19::c_int) \<noteq> 0
   \<and> (\<exists>w'. sqlite_vec_register (init_silent 19) 3 empty_world = Inr (19, w'))"
  using register_surfaces_status [of "init_silent 19" 3 empty_world 19 NULL empty_world]
  by (simp add: init_silent_def)

subsection \<open>Claim C9: the release does not depend on the status\<close>

text \<open>
  C9. Whenever the init call leaves a non-\<open>NULL\<close> message pointer, what the shim
  does to the world is exactly \<open>sqlite3_free\<close> of that pointer, for every status code,
  0 included: a live message buffer is gone on return even when the status is success.
\<close>

theorem register_frees_whatever_the_status:
  assumes "sqlite3_vec_init db NULL NULL w = (rc, err, w1)"
    and "err \<noteq> NULL"
  shows "map_sum id snd (sqlite_vec_register sqlite3_vec_init db w) = sqlite3_free err w1
         \<and> (heap w1 err \<noteq> None \<longrightarrow>
              sqlite_vec_register sqlite3_vec_init db w =
                Inr (rc, w1\<lparr>heap := (heap w1)(err := None)\<rparr>))"
  using assms by (simp add: register_world_is_free register_live_message)

text \<open>
  A concrete run in which the init call succeeds (status 0) and still leaves a message:
  the buffer is released all the same.
\<close>

theorem register_frees_whatever_the_status_witness:
  "init_with_message 0 ''ok'' 1 NULL NULL empty_world =
     (0, 4096, \<lparr>heap = [4096 \<mapsto> ''ok''], engine = ()\<rparr>)
   \<and> (4096 :: addr) \<noteq> NULL
   \<and> heap \<lparr>heap = [4096 \<mapsto> ''ok''], engine = ()\<rparr> 4096 \<noteq> None
   \<and> sqlite_vec_register (init_with_message 0 ''ok'') 1 empty_world = Inr (0, empty_world)"
  using register_frees_whatever_the_status [of "init_with_message 0 ''ok''" 1 empty_world
      0 4096 "\<lparr>heap = [4096 \<mapsto> ''ok''], engine = ()\<rparr>"]
  by (simp add: init_with_message_def NULL_def empty_world_def)

subsection \<open>Claim C10: the status is passed through, the message text is dropped\<close>

text \<open>
  C10. The value the shim returns is exactly the status code of the init call. The text
  of the message is discarded: two init calls that differ only in the text they leave in
  the message buffer give the same result, status and world alike, so the caller can
  tell nothing about the text.
\<close>

theorem register_returns_status_only:
  assumes "sqlite3_vec_init db NULL NULL w = (rc, err, w1)"
    and "err \<noteq> NULL \<longrightarrow> heap w1 err \<noteq> None"
    and "sqlite3_vec_init' db NULL NULL w = (rc, err, w1\<lparr>heap := (heap w1)(err \<mapsto> msg')\<rparr>)"
  shows "map_sum id fst (sqlite_vec_register sqlite3_vec_init db w) = Inr rc
         \<and> (err \<noteq> NULL \<longrightarrow>
              sqlite_vec_register sqlite3_vec_init' db w =
              sqlite_vec_register sqlite3_vec_init db w)"
proof (cases "err = NULL")
  case True
  with assms(1) show ?thesis by (simp add: register_no_message)
next
  case False
  with assms(1,2) have a: "sqlite_vec_register sqlite3_vec_init db w =
      Inr (rc, w1\<lparr>heap := (heap w1)(err := None)\<rparr>)"
    by (simp add: register_live_message)
  from False assms(3) have "sqlite_vec_register sqlite3_vec_init' db w =
      Inr (rc, w1\<lparr>heap := (heap w1)(err := None)\<rparr>)"
    by (simp add: register_live_message)
  with a show ?thesis by simp
qed

text \<open>Two failing runs with status 7 that differ only in the message text.\<close>

theorem register_returns_status_only_witness:
  "init_with_message 7 ''out of memory'' 1 NULL NULL empty_world =
     (7, 4096, \<lparr>heap = [4096 \<mapsto> ''out of memory''], engine = ()\<rparr>)
   \<and> (4096 :: addr) \<noteq> NULL
   \<and> heap \<lparr>heap = [4096 \<mapsto> ''out of memory''], engine = ()\<rparr> 4096 \<noteq> None
   \<and> init_with_message 7 ''symbol conflict'' 1 NULL NULL empty_world =
     (7, 4096, \<lparr>heap = [4096 \<mapsto> ''symbol conflict''], engine = ()\<rparr>)
   \<and> map_sum id fst (sqlite_vec_register (init_with_message 7 ''out of memory'') 1 empty_world) = Inr 7
   \<and> sqlite_vec_register (init_with_message 7 ''symbol conflict'') 1 empty_world =
     sqlite_vec_register (init_with_message 7 ''out of memory'') 1 empty_world"
  using register_returns_status_only [of "init_with_message 7 ''out of memory''" 1 empty_world
      7 4096 "\<lparr>heap = [4096 \<mapsto> ''out of memory''], engine = ()\<rparr>"
      "init_with_message 7 ''symbol conflict''" "''symbol conflict''"]
  by (simp add: init_with_message_def NULL_def empty_world_def)

end
